theory Spec2Isabelle
  imports Complex_Main
begin

section \<open>The Lagrangian parcel integrator of specfabpy\<close>

text \<open>
  A shallow embedding of \<^verbatim>\<open>src/specfabpy/integrator.py\<close>: the functions
  \<^verbatim>\<open>lagrangianparcel\<close> and \<^verbatim>\<open>M_REG_custom\<close>.

  Conventions of the embedding.
  \<^item> Python floats are exact reals and numpy's complex entries are exact complex
    numbers: rounding, the \<^verbatim>\<open>complex64\<close> storage type, infinities and NaN
    are not represented.
  \<^item> A numpy vector is a list, a matrix is a list of rows.
  \<^item> The fabric library \<^verbatim>\<open>sf\<close> is not part of the sources; it is a parameter,
    a record with one field \<open>sf_x\<close> for each attribute \<^verbatim>\<open>sf.x\<close> the integrator uses.
  \<^item> An exception is a value \<open>Inl e\<close>; the function returns, next to its result,
    the caller's mode dictionary as the call leaves it and the progress bar it drew.
\<close>

subsection \<open>Arrays\<close>

type_synonym rmat = "real list list"
type_synonym cvec = "complex list"
type_synonym cmat = "complex list list"

text \<open>\<^verbatim>\<open>np.zeros((n,))\<close> and \<^verbatim>\<open>np.zeros((r,c))\<close>.\<close>

definition zeros :: "nat \<Rightarrow> cvec" where
  "zeros n = replicate n 0"

definition zeros2 :: "nat \<Rightarrow> nat \<Rightarrow> cmat" where
  "zeros2 r c = replicate r (zeros c)"

text \<open>
  Elementwise sums and scalar multiples, and the matrix-vector product
  \<^verbatim>\<open>np.matmul(M, v)\<close>. The operands the integrator combines have equal shapes
  when the library returns square operators of size \<^verbatim>\<open>nlm_len\<close>; on such
  operands the definitions below are numpy's.
\<close>

definition vadd :: "cvec \<Rightarrow> cvec \<Rightarrow> cvec" where
  "vadd u v = map2 (+) u v"

definition madd :: "cmat \<Rightarrow> cmat \<Rightarrow> cmat" where
  "madd A B = map2 vadd A B"

definition vscale :: "real \<Rightarrow> cvec \<Rightarrow> cvec" where
  "vscale a v = map (\<lambda>z. complex_of_real a * z) v"

definition mscale :: "real \<Rightarrow> cmat \<Rightarrow> cmat" where
  "mscale a A = map (vscale a) A"

definition matmul :: "cmat \<Rightarrow> cvec \<Rightarrow> cvec" where
  "matmul M v = map (\<lambda>row. sum_list (map2 (*) row v)) M"

text \<open>\<^verbatim>\<open>np.linalg.norm(D)\<close> of a matrix: the Frobenius norm.\<close>

definition linalg_norm :: "rmat \<Rightarrow> real" where
  "linalg_norm D = sqrt (sum_list (map (\<lambda>x. x\<^sup>2) (concat D)))"

text \<open>\<^verbatim>\<open>A / k\<close> for a matrix and an integer, \<^verbatim>\<open>np.abs\<close> and \<^verbatim>\<open>np.power\<close>.\<close>

definition mdiv :: "cmat \<Rightarrow> nat \<Rightarrow> cmat" where
  "mdiv A k = map (map (\<lambda>z. z / of_nat k)) A"

definition np_abs :: "cmat \<Rightarrow> rmat" where
  "np_abs A = map (map cmod) A"

text \<open>
  The power of a non-negative base: \<open>0 ^ 0 = 1\<close> and \<open>0 ^ e = 0\<close> for positive \<open>e\<close>, as
  numpy computes them (HOL's \<open>powr\<close> alone gives \<open>0 powr 0 = 0\<close>). For \<open>e < 0\<close> numpy's
  \<open>0 ^ e\<close> is infinite, which has no exact value.
\<close>

definition power_scalar :: "real \<Rightarrow> real \<Rightarrow> real" where
  "power_scalar x e = (if x = 0 then (if e = 0 then 1 else 0) else x powr e)"

definition np_power :: "rmat \<Rightarrow> real \<Rightarrow> rmat" where
  "np_power A e = map (map (\<lambda>x. power_scalar x e)) A"

definition rscale :: "real \<Rightarrow> rmat \<Rightarrow> rmat" where
  "rscale a A = map (map (\<lambda>x. a * x)) A"

text \<open>A real matrix where a complex one is expected (numpy promotes on addition).\<close>

definition as_complex :: "rmat \<Rightarrow> cmat" where
  "as_complex A = map (map complex_of_real) A"

subsection \<open>Errors\<close>

text \<open>
  \<open>Exception\<close> and \<open>ValueError\<close> carry the message of the \<^verbatim>\<open>raise\<close> statement.
  \<open>NegativeDimensions\<close> and \<open>BroadcastError m n\<close> are the \<^verbatim>\<open>ValueError\<close>s of
  \<^verbatim>\<open>np.zeros\<close> with a negative size and of assigning a vector of length \<open>m\<close> to a
  row of length \<open>n\<close>.
\<close>

datatype error =
    KeyError string
  | Exception string
  | ValueError string
  | ZeroDivisionError
  | TypeError
  | IndexError
  | NegativeDimensions
  | BroadcastError nat nat

definition ebind :: "error + 'a \<Rightarrow> ('a \<Rightarrow> error + 'b) \<Rightarrow> error + 'b" where
  "ebind m f = (case m of Inl e \<Rightarrow> Inl e | Inr x \<Rightarrow> f x)"

text \<open>\<^verbatim>\<open>d[k]\<close> of a dictionary entry that may be absent.\<close>

definition getitem :: "string \<Rightarrow> 'a option \<Rightarrow> error + 'a" where
  "getitem k v = (case v of None \<Rightarrow> Inl (KeyError k) | Some x \<Rightarrow> Inr x)"

text \<open>
  \<^verbatim>\<open>x / n\<close> of a Python float by a Python int (the library's strain-to-time
  conversions return Python floats): division by zero raises.
\<close>

definition true_div :: "real \<Rightarrow> int \<Rightarrow> error + real" where
  "true_div x n = (if n = 0 then Inl ZeroDivisionError else Inr (x / of_int n))"

subsection \<open>The mode dictionary, the library and the progress bar\<close>

text \<open>
  The dictionary \<^verbatim>\<open>mod\<close> with the keys the integrator reads; a key is present
  when its field is \<open>Some\<close>.
\<close>

record mode =
  mod_type :: "string option"
  mod_plane :: "int option"
  mod_axis :: "int option"
  mod_r :: "real option"
  mod_T :: "real option"

record sf =
  sf_simpleshear_gamma_to_t :: "real \<Rightarrow> real \<Rightarrow> real"
  sf_simpleshear_F :: "int \<Rightarrow> real \<Rightarrow> real \<Rightarrow> rmat"
  sf_simpleshear_ugrad :: "int \<Rightarrow> real \<Rightarrow> rmat"
  sf_pureshear_strainii_to_t :: "real \<Rightarrow> real \<Rightarrow> real"
  sf_pureshear_F :: "int \<Rightarrow> real \<Rightarrow> real \<Rightarrow> real \<Rightarrow> rmat"
  sf_pureshear_ugrad :: "int \<Rightarrow> real \<Rightarrow> real \<Rightarrow> rmat"
  sf_ugrad_to_D_and_W :: "rmat \<Rightarrow> rmat \<times> rmat"
  sf_nlm_len :: nat
  sf_M_REG :: "cvec \<Rightarrow> rmat \<Rightarrow> cmat"
  sf_M_CDRX :: "cvec \<Rightarrow> cmat"
  sf_M_LROT :: "cvec \<Rightarrow> rmat \<Rightarrow> rmat \<Rightarrow> real \<Rightarrow> real \<Rightarrow> cmat"
  sf_M_DDRX :: "cvec \<Rightarrow> rmat \<Rightarrow> cmat"
  sf_Lcap :: nat
  sf_Lmat :: "cvec \<Rightarrow> cmat"

text \<open>
  The progress bar: the four values formatted into its message (the first is the entry
  \<^verbatim>\<open>mod['type']\<close>), its \<^verbatim>\<open>max\<close>, and the number of \<^verbatim>\<open>next()\<close> calls
  it has received.
\<close>

record bar =
  bar_mod_type :: "string option"
  bar_Nt :: int
  bar_dt :: real
  bar_nlm_len :: nat
  bar_max :: int
  bar_index :: nat

definition bar_next :: "bar \<Rightarrow> bar" where
  "bar_next b = b\<lparr>bar_index := Suc (bar_index b)\<rparr>"

subsection \<open>Mode of deformation (lines 17 to 40)\<close>

text \<open>Line 17: \<^verbatim>\<open>if not ('T' in mod): mod['T'] = 1\<close>, an update of the caller's dictionary.\<close>

definition set_default_T :: "mode \<Rightarrow> mode" where
  "set_default_T md = (if mod_T md = None then md\<lparr>mod_T := Some 1\<rparr> else md)"

text \<open>
  Lines 19 to 36: the step size, the deformation gradients and the velocity gradient.
  \<^verbatim>\<open>mod['plane']\<close> (and \<^verbatim>\<open>mod['axis']\<close>, \<^verbatim>\<open>mod['r']\<close>) is read by the
  line of \<^verbatim>\<open>ugrad\<close> even when the comprehension of \<^verbatim>\<open>F\<close> is empty, so a missing key
  raises in either case.
\<close>

definition mode_of_deformation ::
  "sf \<Rightarrow> mode \<Rightarrow> real \<Rightarrow> int \<Rightarrow> real option \<Rightarrow> error + (real \<times> rmat list \<times> rmat)" where
  "mode_of_deformation sf md strain_target Nt dt =
     ebind (getitem ''type'' (mod_type md)) (\<lambda>ty.
       if ty = ''simpleshear'' \<or> ty = ''ss'' then
         ebind (case dt of
                  None \<Rightarrow> ebind (getitem ''T'' (mod_T md)) (\<lambda>T.
                            true_div (sf_simpleshear_gamma_to_t sf strain_target T) Nt)
                | Some d \<Rightarrow> Inr d) (\<lambda>dt.
         ebind (getitem ''plane'' (mod_plane md)) (\<lambda>plane.
         ebind (getitem ''T'' (mod_T md)) (\<lambda>T.
           Inr (dt,
                map (\<lambda>nt. sf_simpleshear_F sf plane T (dt * of_int nt)) [0..Nt],
                sf_simpleshear_ugrad sf plane T))))
       else if ty = ''pureshear'' \<or> ty = ''ps'' then
         ebind (case dt of
                  None \<Rightarrow> ebind (getitem ''T'' (mod_T md)) (\<lambda>T.
                            true_div (sf_pureshear_strainii_to_t sf strain_target T) Nt)
                | Some d \<Rightarrow> Inr d) (\<lambda>dt.
         ebind (getitem ''axis'' (mod_axis md)) (\<lambda>axis.
         ebind (getitem ''r'' (mod_r md)) (\<lambda>r.
         ebind (getitem ''T'' (mod_T md)) (\<lambda>T.
           Inr (dt,
                map (\<lambda>nt. sf_pureshear_F sf axis r T (dt * of_int nt)) [0..Nt],
                sf_pureshear_ugrad sf axis r T)))))
       else if ty = ''rigidrotation'' \<or> ty = ''rr'' then
         Inl (Exception ''type=\"rigidrotation\" not yet supported'')
       else
         Inl (ValueError (''Mode of deformation type=\"'' @ ty @ ''\" not supported'')))"

text \<open>Line 40: \<^verbatim>\<open>time = dt*np.arange(Nt+1)\<close>.\<close>

definition time_stamps :: "real \<Rightarrow> int \<Rightarrow> real list" where
  "time_stamps dt Nt = map (\<lambda>k. dt * of_int k) [0..Nt]"

subsection \<open>State vector (lines 44 to 47)\<close>

text \<open>
  \<^verbatim>\<open>np.zeros((Nt+1,nlm_len))\<close> raises for a negative size; an index into an empty
  axis raises \<^verbatim>\<open>IndexError\<close>; \<^verbatim>\<open>nlm[0,:] = nlm0\<close> copies a vector of the row's
  length, repeats the entry of a vector of length one, and raises for any other length.
\<close>

definition state_vector :: "sf \<Rightarrow> int \<Rightarrow> cvec option \<Rightarrow> error + cmat" where
  "state_vector sf Nt nlm0 =
     (let n = sf_nlm_len sf in
      if Nt + 1 < 0 then Inl NegativeDimensions
      else
        let nlm = zeros2 (nat (Nt + 1)) n in
        case nlm0 of
          None \<Rightarrow>
            if Nt + 1 = 0 \<or> n = 0 then Inl IndexError
            else Inr (nlm[0 := (nlm ! 0)[0 := complex_of_real (1 / sqrt (4 * pi))]])
        | Some v \<Rightarrow>
            if Nt + 1 = 0 then Inl IndexError
            else if length v = n then Inr (nlm[0 := v])
            else if length v = 1 then Inr (nlm[0 := replicate n (v ! 0)])
            else Inl (BroadcastError (length v) n))"

subsection \<open>Steady operators (lines 52 to 62 and 79 to 92)\<close>

text \<open>
  \<^verbatim>\<open>M_REG_custom\<close>. The product \<^verbatim>\<open>nu*np.linalg.norm(D)\<close> raises \<^verbatim>\<open>TypeError\<close>
  when \<^verbatim>\<open>nu\<close> is \<^verbatim>\<open>None\<close>. \<^verbatim>\<open>int((L+1)*(L+2)/2)\<close> is exact, the product of two
  consecutive numbers being even. For \<open>Lcap = 0\<close> numpy divides by zero and fills the
  matrix with non-finite entries, which the exact numbers here do not represent.
\<close>

definition M_REG_custom :: "real option \<Rightarrow> real \<Rightarrow> rmat \<Rightarrow> sf \<Rightarrow> error + cmat" where
  "M_REG_custom nu expo D sf =
     (let L = sf_Lcap sf;
          nlm_len = (L + 1) * (L + 2) div 2;
          nlm_dummy = zeros nlm_len;
          L = mdiv (sf_Lmat sf nlm_dummy) (L * (L + 1))
      in case nu of
           None \<Rightarrow> Inl TypeError
         | Some nu \<Rightarrow>
             let ratemag = nu * linalg_norm D;
                 M_REG = rscale (- ratemag) (np_power (np_abs L) expo)
             in Inr (as_complex M_REG))"

text \<open>Lines 52 to 62, in the order of the source: regularization, CDRX, lattice rotation.\<close>

definition steady_operators ::
  "sf \<Rightarrow> cvec \<Rightarrow> rmat \<Rightarrow> rmat \<Rightarrow> real option \<Rightarrow> real option \<Rightarrow> real option \<Rightarrow> real option \<Rightarrow> real
     \<Rightarrow> error + (cmat \<times> cmat \<times> cmat)" where
  "steady_operators sf nlm_dummy D W nu regexpo Lambda iota zeta =
     (let M_zero = zeros2 (sf_nlm_len sf) (sf_nlm_len sf) in
      ebind (case regexpo of
               None \<Rightarrow> Inr (case nu of Some nu \<Rightarrow> mscale nu (sf_M_REG sf nlm_dummy D) | None \<Rightarrow> M_zero)
             | Some regexpo \<Rightarrow> M_REG_custom nu regexpo D sf) (\<lambda>M_REG.
      let M_CDRX = (case Lambda of Some Lambda \<Rightarrow> mscale Lambda (sf_M_CDRX sf nlm_dummy) | None \<Rightarrow> M_zero);
          M_LROT = (case iota of Some iota \<Rightarrow> sf_M_LROT sf nlm_dummy D W iota zeta | None \<Rightarrow> M_zero)
      in Inr (M_LROT, M_CDRX, M_REG)))"

subsection \<open>Euler integration (lines 66 to 76)\<close>

text \<open>Lines 70 and 71: the operator of one step, from the previous coefficients.\<close>

definition step_operator ::
  "sf \<Rightarrow> real option \<Rightarrow> rmat \<Rightarrow> cmat \<Rightarrow> cmat \<Rightarrow> cmat \<Rightarrow> cvec \<Rightarrow> cmat" where
  "step_operator sf Gamma0 S LROT CDRX REG nlm_prev =
     (let M_zero = zeros2 (sf_nlm_len sf) (sf_nlm_len sf);
          M = madd (madd LROT CDRX) REG
      in madd M (case Gamma0 of Some Gamma0 \<Rightarrow> mscale Gamma0 (sf_M_DDRX sf nlm_prev S) | None \<Rightarrow> M_zero))"

text \<open>Line 72: the new row from the previous one.\<close>

definition euler_update ::
  "sf \<Rightarrow> real option \<Rightarrow> rmat \<Rightarrow> real \<Rightarrow> cmat \<Rightarrow> cmat \<Rightarrow> cmat \<Rightarrow> cvec \<Rightarrow> cvec" where
  "euler_update sf Gamma0 S dt LROT CDRX REG nlm_prev =
     vadd nlm_prev (vscale dt (matmul (step_operator sf Gamma0 S LROT CDRX REG nlm_prev) nlm_prev))"

text \<open>The body of the loop at index \<open>nt\<close>, on the coefficient history and the bar.\<close>

definition euler_step ::
  "sf \<Rightarrow> real option \<Rightarrow> rmat \<Rightarrow> real \<Rightarrow> cmat \<Rightarrow> cmat \<Rightarrow> cmat \<Rightarrow> bool \<Rightarrow> nat
     \<Rightarrow> cmat \<times> bar option \<Rightarrow> cmat \<times> bar option" where
  "euler_step sf Gamma0 S dt LROT CDRX REG verbose nt st =
     (let nlm = fst st; bar = snd st;
          nlm_prev = nlm ! (nt - 1)
      in (nlm[nt := euler_update sf Gamma0 S dt LROT CDRX REG nlm_prev],
          if verbose then map_option bar_next bar else bar))"

text \<open>\<^verbatim>\<open>for nt in np.arange(1,Nt+1)\<close>.\<close>

definition euler_integration ::
  "sf \<Rightarrow> real option \<Rightarrow> rmat \<Rightarrow> real \<Rightarrow> cmat \<Rightarrow> cmat \<Rightarrow> cmat \<Rightarrow> bool \<Rightarrow> nat
     \<Rightarrow> cmat \<times> bar option \<Rightarrow> cmat \<times> bar option" where
  "euler_integration sf Gamma0 S dt LROT CDRX REG verbose Nt st =
     fold (euler_step sf Gamma0 S dt LROT CDRX REG verbose) [1..<Suc Nt] st"

subsection \<open>The integrator\<close>

type_synonym result = "cmat \<times> rmat list \<times> real list \<times> rmat"

definition lagrangianparcel ::
  "sf \<Rightarrow> mode \<Rightarrow> real \<Rightarrow> int \<Rightarrow> real option \<Rightarrow> cvec option \<Rightarrow> bool
     \<Rightarrow> real option \<Rightarrow> real \<Rightarrow> real option \<Rightarrow> real option
     \<Rightarrow> real option \<Rightarrow> real option \<Rightarrow> bool
     \<Rightarrow> mode \<times> bar option \<times> (error + result)" where
  "lagrangianparcel sf md strain_target Nt dt nlm0 verbose iota zeta Lambda Gamma0 nu regexpo apply_bounds =
     (let md = set_default_T md in
      (case mode_of_deformation sf md strain_target Nt dt of
         Inl e \<Rightarrow> (md, None, Inl e)
       | Inr (dt, F, ugrad) \<Rightarrow>
          (let (D, W) = sf_ugrad_to_D_and_W sf ugrad;
               S = D;
               time = time_stamps dt Nt
           in (case state_vector sf Nt nlm0 of
                 Inl e \<Rightarrow> (md, None, Inl e)
               | Inr nlm \<Rightarrow>
                  (let nlm_dummy = nlm ! 0 in
                   (case steady_operators sf nlm_dummy D W nu regexpo Lambda iota zeta of
                      Inl e \<Rightarrow> (md, None, Inl e)
                    | Inr (M_LROT, M_CDRX, M_REG) \<Rightarrow>
                       (let bar = (if verbose
                                   then Some \<lparr>bar_mod_type = mod_type md, bar_Nt = Nt, bar_dt = dt,
                                              bar_nlm_len = sf_nlm_len sf, bar_max = Nt - 1,
                                              bar_index = 0\<rparr>
                                   else None);
                            (nlm, bar) = euler_integration sf Gamma0 S dt M_LROT M_CDRX M_REG verbose
                                           (nat Nt) (nlm, bar)
                        in (md, bar, Inr (nlm, F, time, ugrad)))))))))"


subsection \<open>The library's contract on the dummy state\<close>

text \<open>
  Modelled from the spec: the constructors \<^verbatim>\<open>sf.M_REG\<close>, \<^verbatim>\<open>sf.M_CDRX\<close> and
  \<^verbatim>\<open>sf.M_LROT\<close> of the fabric library are not in the sources. The specification says
  that the library is given a same-shaped dummy state purely to infer array shape and
  dtype: two state arguments of equal length give the same operator.
\<close>

definition shape_only :: "sf \<Rightarrow> bool" where
  "shape_only sf =
     (\<forall>x y D W iota zeta. length x = length y \<longrightarrow>
        sf_M_REG sf x D = sf_M_REG sf y D \<and>
        sf_M_CDRX sf x = sf_M_CDRX sf y \<and>
        sf_M_LROT sf x D W iota zeta = sf_M_LROT sf y D W iota zeta)"

subsection \<open>A small library and a mode, for concrete runs\<close>

text \<open>
  A library of truncation degree one with three coefficients, whose kinematics are linear
  in time and whose operators are fixed matrices, except for the migration operator, which
  reads the zeroth coefficient of the state it is given. The mode is simple shear without
  the key \<^verbatim>\<open>'T'\<close>.
\<close>

definition sf_demo :: sf where
  "sf_demo = \<lparr>
     sf_simpleshear_gamma_to_t = (\<lambda>gam T. T * gam),
     sf_simpleshear_F = (\<lambda>plane T t. [[1, 0, t / T], [0, 1, 0], [0, 0, 1]]),
     sf_simpleshear_ugrad = (\<lambda>plane T. [[0, 0, 1 / T], [0, 0, 0], [0, 0, 0]]),
     sf_pureshear_strainii_to_t = (\<lambda>e T. T * e),
     sf_pureshear_F = (\<lambda>axis r T t. [[1 + t / T, 0, 0], [0, 1, 0], [0, 0, 1]]),
     sf_pureshear_ugrad = (\<lambda>axis r T. [[1 / T, 0, 0], [0, 0, 0], [0, 0, - 1 / T]]),
     sf_ugrad_to_D_and_W = (\<lambda>u. (map2 (map2 (\<lambda>a b. (a + b) / 2)) u (transpose u),
                                  map2 (map2 (\<lambda>a b. (a - b) / 2)) u (transpose u))),
     sf_nlm_len = 3,
     sf_M_REG = (\<lambda>nlm D. [[0, 0, 0], [0, - 1, 0], [0, 0, - 1]]),
     sf_M_CDRX = (\<lambda>nlm. [[0, 0, 0], [0, - 2, 0], [0, 0, - 2]]),
     sf_M_LROT = (\<lambda>nlm D W iota zeta. [[0, 0, 0], [complex_of_real iota, 0, 0], [0, 0, 0]]),
     sf_M_DDRX = (\<lambda>nlm S. [[0, 0, 0], [0, nlm ! 0, 0], [0, 0, 0]]),
     sf_Lcap = 1,
     sf_Lmat = (\<lambda>nlm. [[0, 0, 0], [0, - 2, 0], [0, 0, - 2]])
   \<rparr>"

definition mod_demo :: mode where
  "mod_demo = \<lparr>mod_type = Some ''ss'', mod_plane = Some 0, mod_axis = None, mod_r = None,
                mod_T = None\<rparr>"

text \<open>What the runs below return beside the coefficients, for target strain 1 and two steps.\<close>

definition demo_F :: "rmat list" where
  "demo_F = [[[1, 0, 0], [0, 1, 0], [0, 0, 1]],
             [[1, 0, 1 / 2], [0, 1, 0], [0, 0, 1]],
             [[1, 0, 1], [0, 1, 0], [0, 0, 1]]]"

definition demo_time :: "real list" where
  "demo_time = [0, 1 / 2, 1]"

definition demo_ugrad :: rmat where
  "demo_ugrad = [[0, 0, 1], [0, 0, 0], [0, 0, 0]]"

definition demo_D :: rmat where
  "demo_D = [[0, 0, 1 / 2], [0, 0, 0], [1 / 2, 0, 0]]"

definition demo_W :: rmat where
  "demo_W = [[0, 0, 1 / 2], [0, 0, 0], [- 1 / 2, 0, 0]]"

section \<open>Properties\<close>

subsection \<open>The loop\<close>

lemma euler_integration_0:
  "euler_integration sf G S dt A B C v 0 st = st"
  by (simp add: euler_integration_def)

lemma euler_integration_Suc:
  "euler_integration sf G S dt A B C v (Suc n) st =
     euler_step sf G S dt A B C v (Suc n) (euler_integration sf G S dt A B C v n st)"
  by (simp add: euler_integration_def)

lemma fst_euler_step:
  "fst (euler_step sf G S dt A B C v nt st) =
     (fst st)[nt := euler_update sf G S dt A B C (fst st ! (nt - 1))]"
  by (simp add: euler_step_def Let_def)




lemma fst_euler_integration_verbose:
  "fst (euler_integration sf G S dt A B C v n (nlm, b)) =
     fst (euler_integration sf G S dt A B C v' n (nlm, b'))"
  by (induction n) (simp_all add: euler_integration_0 euler_integration_Suc fst_euler_step)

lemma lagrangianparcel_result:
  "snd (snd (lagrangianparcel sf md strain_target Nt dt nlm0 verbose iota zeta Lambda Gamma0 nu regexpo apply_bounds)) =
     (case mode_of_deformation sf (set_default_T md) strain_target Nt dt of
        Inl e \<Rightarrow> Inl e
      | Inr (dt', F, ugrad) \<Rightarrow>
         (case state_vector sf Nt nlm0 of
            Inl e \<Rightarrow> Inl e
          | Inr nlm \<Rightarrow>
             (case steady_operators sf (nlm ! 0) (fst (sf_ugrad_to_D_and_W sf ugrad))
                     (snd (sf_ugrad_to_D_and_W sf ugrad)) nu regexpo Lambda iota zeta of
                Inl e \<Rightarrow> Inl e
              | Inr (M_LROT, M_CDRX, M_REG) \<Rightarrow>
                 Inr (fst (euler_integration sf Gamma0 (fst (sf_ugrad_to_D_and_W sf ugrad)) dt'
                             M_LROT M_CDRX M_REG False (nat Nt) (nlm, None)),
                      F, time_stamps dt' Nt, ugrad))))"
  unfolding lagrangianparcel_def Let_def case_prod_beta
  by (auto split: sum.splits intro: fst_euler_integration_verbose)

lemma fst_lagrangianparcel:
  "fst (lagrangianparcel sf md strain_target Nt dt nlm0 verbose iota zeta Lambda Gamma0 nu regexpo apply_bounds) =
     set_default_T md"
  unfolding lagrangianparcel_def Let_def case_prod_beta
  by (simp split: sum.splits)

lemma lagrangianparcel_Inr:
  assumes "snd (snd (lagrangianparcel sf md strain_target Nt dt nlm0 verbose iota zeta Lambda Gamma0 nu regexpo apply_bounds)) =
             Inr (nlm, F, time, ugrad)"
  obtains dt' D W nlm_init M_LROT M_CDRX M_REG where
    "mode_of_deformation sf (set_default_T md) strain_target Nt dt = Inr (dt', F, ugrad)"
    "sf_ugrad_to_D_and_W sf ugrad = (D, W)"
    "time = time_stamps dt' Nt"
    "state_vector sf Nt nlm0 = Inr nlm_init"
    "steady_operators sf (nlm_init ! 0) D W nu regexpo Lambda iota zeta = Inr (M_LROT, M_CDRX, M_REG)"
    "nlm = fst (euler_integration sf Gamma0 D dt' M_LROT M_CDRX M_REG False (nat Nt) (nlm_init, None))"
  using assms unfolding lagrangianparcel_result
  by (auto split: sum.splits prod.splits) (metis prod.collapse)

lemma state_vector_shape:
  assumes "state_vector sf Nt nlm0 = Inr nlm"
  shows "0 \<le> Nt" and "length nlm = nat Nt + 1" and "length (nlm ! 0) = sf_nlm_len sf"
  using assms
  by (auto simp: state_vector_def Let_def zeros2_def zeros_def nat_add_distrib
      split: if_splits option.splits)

text \<open>
  The call returns whenever the mode is accepted, \<open>Nt\<close> is not negative, the initial
  vector fits the row, and \<open>nu\<close> is given if \<open>regexpo\<close> is: no other argument can make it
  raise.
\<close>

lemma lagrangianparcel_returns:
  assumes mode: "mode_of_deformation sf (set_default_T md) strain_target Nt dt = Inr (dt', F, ugrad)"
    and Nt: "0 \<le> Nt"
    and nlm0: "case nlm0 of None \<Rightarrow> 0 < sf_nlm_len sf
               | Some v \<Rightarrow> length v = sf_nlm_len sf \<or> length v = 1"
    and nu: "regexpo = None \<or> nu \<noteq> None"
  shows "\<exists>nlm. snd (snd (lagrangianparcel sf md strain_target Nt dt nlm0 verbose iota zeta Lambda Gamma0 nu regexpo apply_bounds)) =
           Inr (nlm, F, time_stamps dt' Nt, ugrad)"
proof -
  have "\<exists>init. state_vector sf Nt nlm0 = Inr init"
    using Nt nlm0 by (cases nlm0) (auto simp: state_vector_def Let_def)
  then obtain init where init: "state_vector sf Nt nlm0 = Inr init" ..
  have "\<exists>ops. steady_operators sf (init ! 0) (fst (sf_ugrad_to_D_and_W sf ugrad))
       (snd (sf_ugrad_to_D_and_W sf ugrad)) nu regexpo Lambda iota zeta = Inr ops"
    using nu by (cases regexpo; cases nu)
      (simp_all add: steady_operators_def M_REG_custom_def ebind_def Let_def)
  then obtain ops where
    "steady_operators sf (init ! 0) (fst (sf_ugrad_to_D_and_W sf ugrad))
       (snd (sf_ugrad_to_D_and_W sf ugrad)) nu regexpo Lambda iota zeta = Inr ops" ..
  with mode init show ?thesis
    by (cases ops) (simp add: lagrangianparcel_result)
qed

subsection \<open>Concrete runs\<close>

lemmas demo_eval = sf_demo_def mod_demo_def demo_F_def demo_time_def demo_ugrad_def demo_D_def
  demo_W_def lagrangianparcel_def set_default_T_def mode_of_deformation_def
  time_stamps_def state_vector_def steady_operators_def M_REG_custom_def euler_integration_def
  euler_step_def euler_update_def step_operator_def ebind_def getitem_def true_div_def
  zeros_def zeros2_def vadd_def madd_def vscale_def mscale_def matmul_def linalg_norm_def mdiv_def
  np_abs_def np_power_def power_scalar_def rscale_def as_complex_def bar_next_def
  Let_def upto.simps eval_nat_numeral

text \<open>No process enabled, isotropic start, progress bar on.\<close>

lemma demo_run_off:
  "snd (snd (lagrangianparcel sf_demo mod_demo 1 2 None None True None 0 None None None None False)) =
     Inr (replicate 3 [complex_of_real (1 / sqrt (4 * pi)), 0, 0], demo_F, demo_time, demo_ugrad)"
  by (simp add: demo_eval)

text \<open>Every process enabled with weight one, default regularization, start \<open>[1, 2, 3]\<close>.\<close>

lemma demo_run_on:
  "snd (snd (lagrangianparcel sf_demo mod_demo 1 2 None (Some [1, 2, 3]) False
               (Some 1) 0 (Some 1) (Some 1) (Some 1) None False)) =
     Inr ([[1, 2, 3], [1, 1 / 2, - (3 / 2)], [1, 1 / 2, 3 / 4]], demo_F, demo_time, demo_ugrad)"
  by (simp add: demo_eval)

text \<open>The same with the start \<open>[1, 0, 0]\<close>.\<close>

lemma demo_run_on':
  "snd (snd (lagrangianparcel sf_demo mod_demo 1 2 None (Some [1, 0, 0]) False
               (Some 1) 0 (Some 1) (Some 1) (Some 1) None False)) =
     Inr ([[1, 0, 0], [1, 1 / 2, 0], [1, 1 / 2, 0]], demo_F, demo_time, demo_ugrad)"
  by (simp add: demo_eval)

lemma demo_D_and_W: "sf_ugrad_to_D_and_W sf_demo demo_ugrad = (demo_D, demo_W)"
  by (simp add: sf_demo_def demo_ugrad_def demo_D_def demo_W_def)

lemma shape_only_demo: "shape_only sf_demo"
  by (simp add: shape_only_def sf_demo_def)

subsection \<open>The Euler update (claim C1)\<close>



subsection \<open>No process enabled (claim C3)\<close>












subsection \<open>Verbose and apply\_bounds (claim C10)\<close>

text \<open>
  Claim C10. The integrator is a function of its arguments, so two calls with the same
  arguments return the same history; and what it returns or raises (the coefficient
  history, the deformation gradients, the time stamps and the velocity gradient) is the
  same for either value of \<open>verbose\<close> and of \<open>apply_bounds\<close>. Only the progress bar, the
  second component of the model's triple, depends on \<open>verbose\<close>.
\<close>

theorem result_independent_of_verbose_and_apply_bounds:
  "snd (snd (lagrangianparcel sf md strain_target Nt dt nlm0 verbose iota zeta Lambda Gamma0 nu regexpo apply_bounds)) =
   snd (snd (lagrangianparcel sf md strain_target Nt dt nlm0 verbose' iota zeta Lambda Gamma0 nu regexpo apply_bounds'))"
proof -
  note lagrangianparcel_result [of sf md strain_target Nt dt nlm0 _ iota zeta Lambda Gamma0 nu regexpo]
  then show ?thesis
    by (simp only:)
qed

subsection \<open>Step size and time stamps (claim C7)\<close>

lemma length_time_stamps: "length (time_stamps dt Nt) = nat (Nt + 1)"
  by (simp add: time_stamps_def)

lemma time_stamps_nth:
  assumes "k \<le> nat Nt" and "0 \<le> Nt"
  shows "time_stamps dt Nt ! k = dt * real k"
proof -
  from assms have "0 + int k \<le> Nt" by simp
  then have "[0..Nt] ! k = 0 + int k" by (rule nth_upto)
  moreover from assms have "k < length [0..Nt]" by simp
  ultimately show ?thesis by (simp add: time_stamps_def)
qed

lemma mode_of_deformation_dt:
  assumes "mode_of_deformation sf md strain_target Nt dt = Inr (dt', F, ugrad)"
    and "mod_T md = Some T"
  shows "(\<forall>d. dt = Some d \<longrightarrow> dt' = d) \<and>
         (dt = None \<longrightarrow> Nt \<noteq> 0 \<and>
            dt' = (if mod_type md = Some ''simpleshear'' \<or> mod_type md = Some ''ss''
                   then sf_simpleshear_gamma_to_t sf strain_target T
                   else sf_pureshear_strainii_to_t sf strain_target T) / of_int Nt)"
  using assms
  by (auto simp: mode_of_deformation_def ebind_def getitem_def true_div_def
      split: option.splits if_splits)

text \<open>
  Claim C7. In a run that returns there is a step size \<open>dt'\<close>: the given one when \<open>dt\<close> is
  supplied, and otherwise the library's strain-to-time conversion of the target strain at
  the mode's time scale (1 when \<^verbatim>\<open>'T'\<close> is absent) divided by \<open>Nt\<close>, so that
  \<open>dt' * Nt\<close> is that time (exactly, the numbers being exact). The time stamps are \<open>Nt + 1\<close>
  values, the \<open>k\<close>-th being \<open>dt' * k\<close>.
\<close>

theorem step_size_and_time_stamps:
  assumes run: "snd (snd (lagrangianparcel sf md strain_target Nt dt nlm0 verbose iota zeta Lambda Gamma0 nu regexpo apply_bounds)) =
             Inr (nlm, F, time, ugrad)"
  shows "\<exists>dt'.
           (\<forall>d. dt = Some d \<longrightarrow> dt' = d) \<and>
           (dt = None \<longrightarrow>
              (let T = (case mod_T md of None \<Rightarrow> 1 | Some T \<Rightarrow> T);
                   strain_to_time =
                     (if mod_type md = Some ''simpleshear'' \<or> mod_type md = Some ''ss''
                      then sf_simpleshear_gamma_to_t sf strain_target T
                      else sf_pureshear_strainii_to_t sf strain_target T)
               in dt' = strain_to_time / of_int Nt \<and> dt' * of_int Nt = strain_to_time)) \<and>
           length time = nat Nt + 1 \<and>
           (\<forall>k \<le> nat Nt. time ! k = dt' * real k)"
proof -
  from run obtain dt' D W nlm_init where
    mode: "mode_of_deformation sf (set_default_T md) strain_target Nt dt = Inr (dt', F, ugrad)"
    and time: "time = time_stamps dt' Nt"
    and init: "state_vector sf Nt nlm0 = Inr nlm_init"
    by (rule lagrangianparcel_Inr)
  have Nt: "0 \<le> Nt"
    using state_vector_shape(1) [OF init] .
  have T: "mod_T (set_default_T md) = Some (case mod_T md of None \<Rightarrow> 1 | Some T \<Rightarrow> T)"
    by (simp add: set_default_T_def split: option.splits)
  have ty: "mod_type (set_default_T md) = mod_type md"
    by (simp add: set_default_T_def)
  note dt = mode_of_deformation_dt [OF mode T, unfolded ty]
  have "length time = nat Nt + 1"
    using Nt by (simp add: time length_time_stamps nat_add_distrib)
  moreover have "\<forall>k \<le> nat Nt. time ! k = dt' * real k"
    using Nt by (simp add: time time_stamps_nth)
  ultimately show ?thesis
    using dt by (intro exI [of _ dt']) (auto simp: Let_def)
qed

theorem step_size_and_time_stamps_witness:
  "snd (snd (lagrangianparcel sf_demo mod_demo 1 2 None None True None 0 None None None None False)) =
     Inr (replicate 3 [complex_of_real (1 / sqrt (4 * pi)), 0, 0], demo_F, demo_time, demo_ugrad) \<and>
   (\<exists>dt'. dt' = sf_simpleshear_gamma_to_t sf_demo 1 1 / of_int 2 \<and>
          dt' * of_int 2 = sf_simpleshear_gamma_to_t sf_demo 1 1 \<and>
          length demo_time = nat 2 + 1 \<and>
          (\<forall>k \<le> nat 2. demo_time ! k = dt' * real k))"
  using demo_run_off step_size_and_time_stamps [OF demo_run_off]
  by (simp add: mod_demo_def)

subsection \<open>Unsupported modes (claim C6)\<close>

text \<open>
  Claim C6. A mode whose type tag is none of \<^verbatim>\<open>simpleshear\<close>, \<^verbatim>\<open>ss\<close>, \<^verbatim>\<open>pureshear\<close>,
  \<^verbatim>\<open>ps\<close>, \<^verbatim>\<open>rigidrotation\<close>, \<^verbatim>\<open>rr\<close> makes the call raise \<^verbatim>\<open>ValueError\<close> with a
  message that quotes the tag; the tags \<^verbatim>\<open>rigidrotation\<close> and \<^verbatim>\<open>rr\<close> make it raise
  \<^verbatim>\<open>Exception\<close> with the message that rigid rotation is not yet supported. Either error
  is the outcome whatever the other arguments are, also those that would fail later
  (a negative \<open>Nt\<close>, an initial vector of the wrong length, a missing \<open>nu\<close>): it is raised
  before the time stamps, the coefficient history and the bar exist and before any step.
\<close>

theorem unsupported_mode_raises_first:
  assumes "mod_type md = Some ty"
  shows "(ty \<notin> {''simpleshear'', ''ss'', ''pureshear'', ''ps'', ''rigidrotation'', ''rr''} \<longrightarrow>
            lagrangianparcel sf md strain_target Nt dt nlm0 verbose iota zeta Lambda Gamma0 nu regexpo apply_bounds =
              (set_default_T md, None,
               Inl (ValueError (''Mode of deformation type=\"'' @ ty @ ''\" not supported'')))) \<and>
         (ty \<in> {''rigidrotation'', ''rr''} \<longrightarrow>
            lagrangianparcel sf md strain_target Nt dt nlm0 verbose iota zeta Lambda Gamma0 nu regexpo apply_bounds =
              (set_default_T md, None, Inl (Exception ''type=\"rigidrotation\" not yet supported'')))"
proof -
  have ty: "mod_type (set_default_T md) = Some ty"
    using assms by (simp add: set_default_T_def)
  have "ty \<notin> {''simpleshear'', ''ss'', ''pureshear'', ''ps'', ''rigidrotation'', ''rr''} \<Longrightarrow>
        mode_of_deformation sf (set_default_T md) strain_target Nt dt =
          Inl (ValueError (''Mode of deformation type=\"'' @ ty @ ''\" not supported''))"
    unfolding mode_of_deformation_def ebind_def getitem_def ty by simp
  moreover have "ty \<in> {''rigidrotation'', ''rr''} \<Longrightarrow>
        mode_of_deformation sf (set_default_T md) strain_target Nt dt =
          Inl (Exception ''type=\"rigidrotation\" not yet supported'')"
    unfolding mode_of_deformation_def ebind_def getitem_def ty by auto
  ultimately show ?thesis
    unfolding lagrangianparcel_def Let_def by simp
qed

theorem unsupported_mode_raises_first_witness:
  "lagrangianparcel sf_demo (mod_demo\<lparr>mod_type := Some ''shear''\<rparr>) 1 (- 5) None (Some [1]) True
       None 0 None None None (Some 2) False =
     (set_default_T (mod_demo\<lparr>mod_type := Some ''shear''\<rparr>), None,
      Inl (ValueError ''Mode of deformation type=\"shear\" not supported'')) \<and>
   lagrangianparcel sf_demo (mod_demo\<lparr>mod_type := Some ''rr''\<rparr>) 1 (- 5) None (Some [1]) True
       None 0 None None None (Some 2) False =
     (set_default_T (mod_demo\<lparr>mod_type := Some ''rr''\<rparr>), None,
      Inl (Exception ''type=\"rigidrotation\" not yet supported''))"
  using unsupported_mode_raises_first [of "mod_demo\<lparr>mod_type := Some ''shear''\<rparr>" "''shear''"
      sf_demo 1 "- 5" None "Some [1]" True None 0 None None None "Some 2" False]
    unsupported_mode_raises_first [of "mod_demo\<lparr>mod_type := Some ''rr''\<rparr>" "''rr''"
      sf_demo 1 "- 5" None "Some [1]" True None 0 None None None "Some 2" False]
  by (simp add: mod_demo_def)

subsection \<open>The caller's mode dictionary (claim C8)\<close>

text \<open>
  Claim C8, as stated, fails: the call writes into the caller's dictionary. With the key
  \<^verbatim>\<open>'T'\<close> absent, the dictionary after the call differs from the one passed in.
\<close>

theorem mode_dictionary_modified:
  "fst (lagrangianparcel sf_demo mod_demo 1 2 None None True None 0 None None None None False) \<noteq>
     mod_demo"
  by (simp add: fst_lagrangianparcel set_default_T_def mod_demo_def)

text \<open>
  Claim C8, amended. The only effect of the call on the mode dictionary is line 17: when
  the key \<^verbatim>\<open>'T'\<close> is absent it is inserted with the value 1, also in a call that then
  raises; a dictionary that has the key is left as it was.
\<close>

theorem mode_dictionary_after_call:
  "fst (lagrangianparcel sf md strain_target Nt dt nlm0 verbose iota zeta Lambda Gamma0 nu regexpo apply_bounds) =
     (if mod_T md = None then md\<lparr>mod_T := Some 1\<rparr> else md)"
proof -
  have "fst (lagrangianparcel sf md strain_target Nt dt nlm0 verbose iota zeta Lambda Gamma0 nu regexpo apply_bounds) =
          set_default_T md"
    by (rule fst_lagrangianparcel)
  then show ?thesis
    by (simp only: set_default_T_def)
qed

subsection \<open>Steady operators and the initial state (claim C9)\<close>

lemma steady_operators_shape_only:
  assumes "shape_only sf" and "length a = length b"
  shows "steady_operators sf a D W nu regexpo Lambda iota zeta =
         steady_operators sf b D W nu regexpo Lambda iota zeta"
proof -
  from assms have "sf_M_REG sf a D = sf_M_REG sf b D" "sf_M_CDRX sf a = sf_M_CDRX sf b"
    "\<And>i. sf_M_LROT sf a D W i zeta = sf_M_LROT sf b D W i zeta"
    unfolding shape_only_def by blast+
  then show ?thesis
    by (simp add: steady_operators_def Let_def split: option.splits)
qed

text \<open>
  Claim C9. For a library whose constructors use the state argument for its shape only,
  two runs that differ only in the initial coefficient vector and both return have the
  same three steady operators, computed once from row 0 of each history, and each history
  is the loop run with these operators held fixed over all steps.
\<close>

theorem steady_operators_independent_of_initial_state:
  assumes lib: "shape_only sf"
    and run_a: "snd (snd (lagrangianparcel sf md strain_target Nt dt nlm0_a verbose iota zeta Lambda Gamma0 nu regexpo apply_bounds)) =
             Inr (nlm_a, F_a, time_a, ugrad_a)"
    and run_b: "snd (snd (lagrangianparcel sf md strain_target Nt dt nlm0_b verbose iota zeta Lambda Gamma0 nu regexpo apply_bounds)) =
             Inr (nlm_b, F_b, time_b, ugrad_b)"
  shows "\<exists>dt' D W M_LROT M_CDRX M_REG init_a init_b.
           state_vector sf Nt nlm0_a = Inr init_a \<and>
           state_vector sf Nt nlm0_b = Inr init_b \<and>
           steady_operators sf (init_a ! 0) D W nu regexpo Lambda iota zeta = Inr (M_LROT, M_CDRX, M_REG) \<and>
           steady_operators sf (init_b ! 0) D W nu regexpo Lambda iota zeta = Inr (M_LROT, M_CDRX, M_REG) \<and>
           nlm_a = fst (euler_integration sf Gamma0 D dt' M_LROT M_CDRX M_REG verbose (nat Nt) (init_a, None)) \<and>
           nlm_b = fst (euler_integration sf Gamma0 D dt' M_LROT M_CDRX M_REG verbose (nat Nt) (init_b, None))"
proof -
  from run_a obtain dt' D W init_a M_LROT M_CDRX M_REG where
    mode_a: "mode_of_deformation sf (set_default_T md) strain_target Nt dt = Inr (dt', F_a, ugrad_a)"
    and DW_a: "sf_ugrad_to_D_and_W sf ugrad_a = (D, W)"
    and init_a: "state_vector sf Nt nlm0_a = Inr init_a"
    and steady_a: "steady_operators sf (init_a ! 0) D W nu regexpo Lambda iota zeta = Inr (M_LROT, M_CDRX, M_REG)"
    and nlm_a: "nlm_a = fst (euler_integration sf Gamma0 D dt' M_LROT M_CDRX M_REG False (nat Nt) (init_a, None))"
    by (rule lagrangianparcel_Inr)
  from run_b obtain dt'' D' W' init_b M_LROT' M_CDRX' M_REG' where
    mode_b: "mode_of_deformation sf (set_default_T md) strain_target Nt dt = Inr (dt'', F_b, ugrad_b)"
    and DW_b: "sf_ugrad_to_D_and_W sf ugrad_b = (D', W')"
    and init_b: "state_vector sf Nt nlm0_b = Inr init_b"
    and steady_b: "steady_operators sf (init_b ! 0) D' W' nu regexpo Lambda iota zeta = Inr (M_LROT', M_CDRX', M_REG')"
    and nlm_b: "nlm_b = fst (euler_integration sf Gamma0 D' dt'' M_LROT' M_CDRX' M_REG' False (nat Nt) (init_b, None))"
    by (rule lagrangianparcel_Inr)
  from mode_a mode_b have same: "dt'' = dt'" "ugrad_b = ugrad_a"
    by simp_all
  with DW_a DW_b have DW: "D' = D" "W' = W"
    by simp_all
  have "length (init_a ! 0) = length (init_b ! 0)"
    using state_vector_shape(3) [OF init_a] state_vector_shape(3) [OF init_b] by simp
  from steady_operators_shape_only [OF lib this] steady_a steady_b
  have ops: "M_LROT' = M_LROT" "M_CDRX' = M_CDRX" "M_REG' = M_REG"
    unfolding DW by simp_all
  have "nlm_a = fst (euler_integration sf Gamma0 D dt' M_LROT M_CDRX M_REG verbose (nat Nt) (init_a, None))"
    unfolding nlm_a by (rule fst_euler_integration_verbose)
  moreover have "nlm_b = fst (euler_integration sf Gamma0 D dt' M_LROT M_CDRX M_REG verbose (nat Nt) (init_b, None))"
    unfolding nlm_b same DW ops by (rule fst_euler_integration_verbose)
  ultimately show ?thesis
    using init_a init_b steady_a steady_b unfolding DW ops by blast
qed

theorem steady_operators_independent_of_initial_state_witness:
  "shape_only sf_demo \<and>
   snd (snd (lagrangianparcel sf_demo mod_demo 1 2 None (Some [1, 2, 3]) False
               (Some 1) 0 (Some 1) (Some 1) (Some 1) None False)) =
     Inr ([[1, 2, 3], [1, 1 / 2, - (3 / 2)], [1, 1 / 2, 3 / 4]], demo_F, demo_time, demo_ugrad) \<and>
   snd (snd (lagrangianparcel sf_demo mod_demo 1 2 None (Some [1, 0, 0]) False
               (Some 1) 0 (Some 1) (Some 1) (Some 1) None False)) =
     Inr ([[1, 0, 0], [1, 1 / 2, 0], [1, 1 / 2, 0]], demo_F, demo_time, demo_ugrad) \<and>
   (\<exists>dt' D W M_LROT M_CDRX M_REG init_a init_b.
      state_vector sf_demo 2 (Some [1, 2, 3]) = Inr init_a \<and>
      state_vector sf_demo 2 (Some [1, 0, 0]) = Inr init_b \<and>
      steady_operators sf_demo (init_a ! 0) D W (Some 1) None (Some 1) (Some 1) 0 =
        Inr (M_LROT, M_CDRX, M_REG) \<and>
      steady_operators sf_demo (init_b ! 0) D W (Some 1) None (Some 1) (Some 1) 0 =
        Inr (M_LROT, M_CDRX, M_REG) \<and>
      [[1, 2, 3], [1, 1 / 2, - (3 / 2)], [1, 1 / 2, 3 / 4]] =
        fst (euler_integration sf_demo (Some 1) D dt' M_LROT M_CDRX M_REG False (nat 2) (init_a, None)) \<and>
      [[1, 0, 0], [1, 1 / 2, 0], [1, 1 / 2, 0]] =
        fst (euler_integration sf_demo (Some 1) D dt' M_LROT M_CDRX M_REG False (nat 2) (init_b, None)))"
  using shape_only_demo demo_run_on demo_run_on'
    steady_operators_independent_of_initial_state [OF shape_only_demo demo_run_on demo_run_on']
  by blast

subsection \<open>The regularization operator (claims C2 and C5)\<close>




text \<open>
  Claim C5 fails on the code where \<open>nu\<close> is omitted and \<open>regexpo\<close> is given: the default
  path tests \<^verbatim>\<open>nu is not None\<close>, the custom path multiplies \<^verbatim>\<open>nu\<close> without a test, and
  the call raises \<^verbatim>\<open>TypeError\<close>.
\<close>

theorem custom_regularization_without_nu_raises:
  "snd (snd (lagrangianparcel sf_demo mod_demo 1 2 None None False None 0 None None None (Some 2) False)) =
     Inl TypeError"
  by (simp add: demo_eval)

subsection \<open>The initial state (claim C4)\<close>





end
